theory Spec2Isabelle
  imports Main
begin

section \<open>Data model\<close>

text \<open>
  Modelled from the spec: the \<open>ConnectionStatus\<close> enumeration is imported by the
  streaming client from \<open>./directLine\<close>, which is not among the sources; these are
  the four statuses the spec names and the client publishes.
\<close>

datatype ConnectionStatus = Uninitialized | Connecting | Online | Ended

text \<open>
  Modelled from the spec: \<open>Media\<close> and \<open>Activity\<close> are declared in
  \<open>./directLine\<close> as well. An activity is an opaque payload with a \<open>type\<close>, an
  optional \<open>from.id\<close> and an optional \<open>attachments\<close> array; \<open>None\<close> is the
  field being absent (\<open>undefined\<close>).
\<close>

record Media =
  contentType :: string
  contentUrl :: string

record Activity =
  activity_type :: string
  from_id :: "string option"
  attachments :: "Media list option"
  payload :: string

text \<open>
  A \<open>BFSE.ContentStream\<close>: its declared content type and the text that
  \<open>readAsString()\<close> resolves to.
\<close>

record ContentStream =
  stream_contentType :: string
  stream_text :: string

text \<open>Values thrown by the JavaScript runtime or by the client itself.\<close>

datatype js_error = TypeError | SyntaxError | AjaxError | Thrown string

text \<open>
  \<open>JSON.parse\<close> is an external collaborator; the client reads three things out of
  parsed documents. Each reader returns the thrown error when \<open>JSON.parse\<close> (or the
  property access that follows it) throws.
\<close>

record JSON =
  parse_activities :: "string \<Rightarrow> js_error + Activity list"
  parse_conversationId :: "string \<Rightarrow> js_error + string option"
  parse_Id :: "string \<Rightarrow> js_error + string option"

definition MAX_RETRY_COUNT :: int where
  "MAX_RETRY_COUNT = 3"

text \<open>
  The calls the client makes on its collaborators, in program order: the status subject,
  the activity subscriber, the transport, the timers and the token endpoint. \<open>Respond\<close>
  is the response a request handler returns to the transport and \<open>Throw\<close> an exception
  that escapes a callback (after which the callback does nothing more).
\<close>

datatype effect =
    StatusNext ConnectionStatus
  | ActivityNext Activity
  | ActivityError string
  | NewConnection nat
  | Disconnect nat
  | SetTimeoutConnect
  | SetTimeoutRefresh int
  | AjaxPost int
  | AwaitOnline int
  | Respond nat
  | Throw js_error

text \<open>
  The fields of \<open>DirectLineStreaming\<close> together with the queue of its
  \<open>StreamHandler\<close>. \<open>connectionStatus\<close> is the current value of the behaviour subject
  \<open>connectionStatus$\<close>; \<open>streamConnection\<close> is \<open>None\<close> until the first
  \<open>WebSocketClient\<close> is created and then holds the number of the current client.
\<close>

record DirectLineStreaming =
  connectionStatus :: ConnectionStatus
  retryCount :: int
  domain :: string
  conversationId :: "string option"
  token :: "string option"
  streamConnection :: "nat option"
  queueActivities :: bool
  activityQueue :: "Activity list"
  effects :: "effect list"

record DirectLineStreamingOptions =
  options_token :: string
  options_conversationId :: "string option"
  options_domain :: string

definition emit :: "effect \<Rightarrow> DirectLineStreaming \<Rightarrow> DirectLineStreaming" where
  "emit e s = s\<lparr>effects := effects s @ [e]\<rparr>"

text \<open>\<open>connectionStatus$.next(cs)\<close>: the subject stores the value and notifies.\<close>

definition connectionStatus_next :: "ConnectionStatus \<Rightarrow> DirectLineStreaming \<Rightarrow> DirectLineStreaming" where
  "connectionStatus_next cs s = emit (StatusNext cs) (s\<lparr>connectionStatus := cs\<rparr>)"

text \<open>
  \<open>this.streamConnection.disconnect()\<close>; the call throws a \<open>TypeError\<close> while no
  client exists. Every caller makes it as its last statement.
\<close>

definition disconnect :: "DirectLineStreaming \<Rightarrow> DirectLineStreaming" where
  "disconnect s =
     (case streamConnection s of
        None \<Rightarrow> emit (Throw TypeError) s
      | Some k \<Rightarrow> emit (Disconnect k) s)"

text \<open>JavaScript truthiness of an optional string: \<open>undefined\<close>, \<open>null\<close> and \<open>""\<close> are falsy.\<close>

definition truthy :: "string option \<Rightarrow> bool" where
  "truthy t = (case t of None \<Rightarrow> False | Some v \<Rightarrow> v \<noteq> [])"

section \<open>Inbound handler\<close>

definition dataUri :: "ContentStream \<Rightarrow> Media" where
  "dataUri stream =
     \<lparr>contentType = stream_contentType stream,
      contentUrl = ''data:text/plain;base64,'' @ stream_text stream\<rparr>"

text \<open>The loop \<open>while (stream = streams.shift()) attachments.push(...)\<close>.\<close>

fun push_streams :: "ContentStream list \<Rightarrow> Media list \<Rightarrow> Media list" where
  "push_streams [] atts = atts"
| "push_streams (stream # streams) atts =
     push_streams streams (atts @ [dataUri stream])"

text \<open>
  The first part of \<open>StreamHandler.processRequest\<close>, up to the routing decision:
  \<open>Inl\<close> is an exception (no first stream, a parse failure, or the spread of an absent
  \<open>attachments\<close> field); \<open>Inr None\<close> is an activity set that does not hold exactly one
  activity; \<open>Inr (Some activity)\<close> is the activity with the extra streams attached.
\<close>

definition readRequest :: "JSON \<Rightarrow> ContentStream list \<Rightarrow> js_error + Activity option" where
  "readRequest J request_streams =
     (case request_streams of
        [] \<Rightarrow> Inl TypeError
      | stream0 # streams \<Rightarrow>
          (case parse_activities J (stream_text stream0) of
             Inl e \<Rightarrow> Inl e
           | Inr activities \<Rightarrow>
               if length activities \<noteq> 1 then Inr None
               else
                 let activity = activities ! 0 in
                 if length streams > 0 then
                   (case attachments activity of
                      None \<Rightarrow> Inl TypeError
                    | Some atts \<Rightarrow>
                        Inr (Some (activity\<lparr>attachments := Some (push_streams streams atts)\<rparr>)))
                 else Inr (Some activity)))"

text \<open>
  \<open>StreamHandler.processRequest\<close>: the status code of the response and the new state,
  or the exception that rejects the returned promise. \<open>shouldQueue()\<close> reads
  \<open>queueActivities\<close>; the read and the push or publication that follows it run without
  a suspension point in between.
\<close>

definition processRequest ::
  "JSON \<Rightarrow> ContentStream list \<Rightarrow> DirectLineStreaming \<Rightarrow> js_error + (nat \<times> DirectLineStreaming)" where
  "processRequest J request_streams s =
     (case readRequest J request_streams of
        Inl e \<Rightarrow> Inl e
      | Inr None \<Rightarrow>
          Inr (500, emit (ActivityError ''there should be exactly one activity'') s)
      | Inr (Some activity) \<Rightarrow>
          Inr (200,
            if queueActivities s
            then s\<lparr>activityQueue := activityQueue s @ [activity]\<rparr>
            else emit (ActivityNext activity) s))"

text \<open>
  \<open>StreamHandler.flush\<close>: \<open>forEach\<close> over the queue, then the queue is replaced by
  an empty one. (The subscription \<open>connectionStatus$.subscribe(cs => { })\<close> it makes
  first has an empty observer.)
\<close>

definition flush :: "DirectLineStreaming \<Rightarrow> DirectLineStreaming" where
  "flush s = (foldl (\<lambda>s' a. emit (ActivityNext a) s') s (activityQueue s))\<lparr>activityQueue := []\<rparr>"

section \<open>Connection controller\<close>

text \<open>
  \<open>refreshToken(firstCall, retryCount)\<close> up to the request it posts: the first call
  only arms the timer for \<open>refreshToken(false, 0)\<close>; a later call returns when the
  status is \<open>Ended\<close>, waits until it is \<open>Online\<close>, and posts the refresh request, whose
  callbacks carry \<open>retryCount\<close>.
\<close>

definition refreshToken :: "bool \<Rightarrow> int \<Rightarrow> DirectLineStreaming \<Rightarrow> DirectLineStreaming" where
  "refreshToken firstCall retries s =
     (if firstCall then emit (SetTimeoutRefresh 0) s
      else if connectionStatus s = Ended then s
      else if connectionStatus s = Online then emit (AjaxPost retries) s
      else emit (AwaitOnline retries) s)"

text \<open>The constructor: the fields, and the first call \<open>refreshToken()\<close>.\<close>

definition constructor :: "DirectLineStreamingOptions \<Rightarrow> DirectLineStreaming" where
  "constructor options =
     refreshToken True 0
       \<lparr>connectionStatus = Uninitialized,
        retryCount = MAX_RETRY_COUNT,
        domain = options_domain options,
        conversationId =
          (if truthy (options_conversationId options) then options_conversationId options else None),
        token = Some (options_token options),
        streamConnection = None,
        queueActivities = True,
        activityQueue = [],
        effects = []\<rparr>"

text \<open>
  \<open>connectAsync\<close> up to its first \<open>await\<close>: the domain test (the regular expression
  \<open>^http(s?)\<close> matches exactly the strings that start with \<open>http\<close>), the new transport
  client, and \<open>queueActivities = true\<close>.
\<close>

definition connectAsync :: "DirectLineStreaming \<Rightarrow> js_error + DirectLineStreaming" where
  "connectAsync s =
     (if take 4 (domain s) \<noteq> ''http'' then Inl (Thrown ''Domain must begin with http or https'')
      else
        let k = (case streamConnection s of None \<Rightarrow> 0 | Some j \<Rightarrow> Suc j) in
        Inr ((emit (NewConnection k) s)\<lparr>streamConnection := Some k, queueActivities := True\<rparr>))"

text \<open>
  What the awaited \<open>connect()\<close> and \<open>send(request)\<close> come back with: a rejection, or
  a response with a status code and its streams.
\<close>

datatype handshake = Rejected | Response nat "ContentStream list"

text \<open>
  \<open>connectAsync\<close> from the resolution of the handshake to the publication of
  \<open>Online\<close>; every failure lands in the \<open>catch\<close> block, which disconnects.
\<close>

definition connectAsync_response :: "JSON \<Rightarrow> handshake \<Rightarrow> DirectLineStreaming \<Rightarrow> DirectLineStreaming" where
  "connectAsync_response J h s =
     (case h of
        Rejected \<Rightarrow> disconnect s
      | Response statusCode streams \<Rightarrow>
          if statusCode \<noteq> 200 then disconnect s
          else if length streams \<noteq> 1 then disconnect s
          else
            (case parse_conversationId J (stream_text (streams ! 0)) of
               Inl e \<Rightarrow> disconnect s
             | Inr c \<Rightarrow> connectionStatus_next Online (s\<lparr>conversationId := c\<rparr>)))"

text \<open>
  The continuation of \<open>connectAsync\<close> after \<open>await this.waitUntilOnline()\<close>. The
  behaviour subject replays \<open>Online\<close> to the subscription made right after the
  publication, so the promise is already resolved and the continuation always runs.
\<close>

definition connectAsync_resume :: "DirectLineStreaming \<Rightarrow> DirectLineStreaming" where
  "connectAsync_resume s = (flush s)\<lparr>queueActivities := False, retryCount := MAX_RETRY_COUNT\<rparr>"

definition disconnectionHandler :: "string \<Rightarrow> DirectLineStreaming \<Rightarrow> DirectLineStreaming" where
  "disconnectionHandler e s =
     (if connectionStatus s = Ended then s
      else if \<not> truthy (token s) then emit (ActivityError ''Token unavailable'') s
      else
        let s1 = s\<lparr>retryCount := retryCount s - 1\<rparr> in
        if retryCount s1 > 0
        then emit SetTimeoutConnect (connectionStatus_next Connecting s1)
        else emit (ActivityError e) s1)"

text \<open>\<open>reconnect({ conversationId, token })\<close> up to the first \<open>await\<close> of \<open>connectAsync\<close>.\<close>

definition reconnect :: "string option \<Rightarrow> string option \<Rightarrow> DirectLineStreaming \<Rightarrow> js_error + DirectLineStreaming" where
  "reconnect c t s = connectAsync (s\<lparr>conversationId := c, token := t\<rparr>)"

text \<open>\<open>end()\<close>.\<close>

definition end_call :: "DirectLineStreaming \<Rightarrow> DirectLineStreaming" where
  "end_call s = disconnect (connectionStatus_next Ended s)"

section \<open>Token refresher\<close>

text \<open>The success callback of the refresh request.\<close>

definition refreshToken_success :: "string option \<Rightarrow> DirectLineStreaming \<Rightarrow> DirectLineStreaming" where
  "refreshToken_success t s = emit (SetTimeoutRefresh MAX_RETRY_COUNT) (s\<lparr>token := t\<rparr>)"

text \<open>
  The error callback of the refresh request sent by \<open>refreshToken(false, retries)\<close>,
  for an error with HTTP status \<open>status\<close>.
\<close>

definition refreshToken_error :: "int \<Rightarrow> int \<Rightarrow> DirectLineStreaming \<Rightarrow> DirectLineStreaming" where
  "refreshToken_error status retries s =
     (if status = 403 \<or> status = 404 then disconnect s
      else if retries > 0 then refreshToken False (retries - 1) s
      else disconnect (s\<lparr>token := None\<rparr>))"

section \<open>Outbound sender: message with attachments\<close>

text \<open>
  A \<open>BFSE.HttpContent\<close>: the header fields \<open>type\<close> and \<open>contentLength\<close>, and the
  bytes written to its stream.
\<close>

record HttpContent =
  content_type :: string
  content_length :: nat
  content_bytes :: string

text \<open>A streaming request: verb, path and the streams added to it, in order.\<close>

datatype StreamingRequest = StreamingRequest string string "HttpContent list"

text \<open>What goes out on the network, in the order it is issued.\<close>

datatype net_op = AjaxGet string | Send StreamingRequest

text \<open>
  The \<open>do\<close> callbacks of the attachment downloads. \<open>flatMap\<close> subscribes to every
  download as soon as \<open>Observable.from\<close> emits its attachment, so the downloads run side
  by side and each callback runs when its own response arrives: \<open>arrival\<close> lists the
  indices of the attachments in the order their responses arrive. A response that is
  an error (\<open>fetch\<close> gives \<open>None\<close>) ends the pipeline with that error.
\<close>

fun receive ::
  "(string \<Rightarrow> string option) \<Rightarrow> Media list \<Rightarrow> nat list \<Rightarrow> HttpContent list \<Rightarrow> js_error + HttpContent list" where
  "receive fetch atts [] httpContentList = Inr httpContentList"
| "receive fetch atts (i # arrival) httpContentList =
     (if i < length atts then
        (case fetch (contentUrl (atts ! i)) of
           None \<Rightarrow> Inl AjaxError
         | Some buffer \<Rightarrow>
             receive fetch atts arrival
               (httpContentList @
                 [\<lparr>content_type = contentType (atts ! i),
                   content_length = length buffer,
                   content_bytes = buffer\<rparr>]))
      else receive fetch atts arrival httpContentList)"

text \<open>The \<open>HttpContent\<close> built from the downloaded bytes of one attachment.\<close>

definition fetched :: "(string \<Rightarrow> string option) \<Rightarrow> Media \<Rightarrow> HttpContent" where
  "fetched fetch media =
     (let buffer = (case fetch (contentUrl media) of None \<Rightarrow> [] | Some b \<Rightarrow> b)
      in \<lparr>content_type = contentType media, content_length = length buffer, content_bytes = buffer\<rparr>)"

text \<open>
  \<open>postMessageWithAttachments\<close>, subscribed once: the network operations it issues
  and the exception that ends it, if any. \<open>count()\<close> emits, and the upload is built and
  sent, only once every download has completed; \<open>stringify\<close> is \<open>JSON.stringify\<close>.
\<close>

definition postMessageWithAttachments ::
  "(string \<Rightarrow> string option) \<Rightarrow> (Activity \<Rightarrow> string) \<Rightarrow> string option \<Rightarrow> Activity \<Rightarrow> nat list
     \<Rightarrow> net_op list \<times> js_error option" where
  "postMessageWithAttachments fetch stringify conversation message arrival =
     (let atts = (case attachments message of None \<Rightarrow> [] | Some a \<Rightarrow> a);
          messageWithoutAttachments = message\<lparr>attachments := None\<rparr>;
          gets = map (\<lambda>media. AjaxGet (contentUrl media)) atts
      in
        case receive fetch atts arrival [] of
          Inl e \<Rightarrow> (gets, Some e)
        | Inr httpContentList \<Rightarrow>
            if \<not> list_all (\<lambda>i. i \<in> set arrival) [0..<length atts] then (gets, None)
            else
              (case from_id messageWithoutAttachments of
                 None \<Rightarrow> (gets, Some TypeError)
               | Some fromId \<Rightarrow>
                   let url = ''/v3/directline/conversations/''
                         @ (case conversation of None \<Rightarrow> ''undefined'' | Some c \<Rightarrow> c)
                         @ ''/users/'' @ fromId @ ''/upload'';
                       activityStream = stringify messageWithoutAttachments
                   in
                     (gets @
                        [Send (StreamingRequest ''PUT'' url
                           (\<lparr>content_type = ''application/vnd.microsoft.activity'',
                             content_length = length activityStream,
                             content_bytes = activityStream\<rparr> # httpContentList))],
                      None)))"

text \<open>
  What the per-call result channel receives: an id, or the error
  \<open>Invalid stream count n\<close>.
\<close>

datatype result_event = ResultNext "string option" | ResultError nat

text \<open>
  The \<open>do\<close> callback on the upload response: \<open>streams\<close> is \<open>None\<close> when the response
  has no \<open>streams\<close> property (the only falsy case: every array, also the empty one, is
  truthy). The result is what reaches the result channel, and the exception thrown
  past it, if any.
\<close>

definition upload_response ::
  "JSON \<Rightarrow> ContentStream list option \<Rightarrow> result_event list \<times> js_error option" where
  "upload_response J streams =
     (case streams of
        None \<Rightarrow> ([], Some TypeError)
      | Some ss \<Rightarrow>
          if length ss \<noteq> 1 then ([ResultError (length ss)], None)
          else
            (case parse_Id J (stream_text (ss ! 0)) of
               Inl e \<Rightarrow> ([], Some e)
             | Inr i \<Rightarrow> ([ResultNext i], None)))"

section \<open>The client as an event-driven machine\<close>

text \<open>
  The client runs on one cooperative task runner; between two suspension points a
  callback runs alone. Each event is one such callback: the first subscription to
  \<open>activity$\<close>, the resolution of the handshake awaited by \<open>connectAsync\<close>, the
  continuation after \<open>await this.waitUntilOnline()\<close>, the transport's disconnection
  callback, the reconnect timer, an inbound request reaching its routing decision, the
  public calls \<open>reconnect\<close> and \<open>end\<close>, and the refresher's timer and callbacks.
  The first subscription also creates the \<open>StreamHandler\<close>, with an empty queue; the
  reconnect timer rebinds the handler to the one activity subscriber and calls
  \<open>connectAsync\<close>. A tick of the refresher that finds the status neither \<open>Ended\<close>
  nor \<open>Online\<close> waits (\<open>AwaitOnline\<close>); what it does once \<open>Online\<close> is published is
  what \<open>refreshToken\<close> does in a state that is \<open>Online\<close>.
\<close>

datatype event =
    Subscribe
  | Handshake handshake
  | Resume
  | Disconnected string
  | RetryTimeout
  | Inbound "ContentStream list"
  | Reconnect "string option" "string option"
  | End
  | RefreshTimeout int
  | RefreshSuccess "string option"
  | RefreshError int int

text \<open>An async call whose rejection nobody handles.\<close>

definition unhandled :: "js_error + DirectLineStreaming \<Rightarrow> DirectLineStreaming \<Rightarrow> DirectLineStreaming" where
  "unhandled r s = (case r of Inl e \<Rightarrow> emit (Throw e) s | Inr s' \<Rightarrow> s')"

fun step :: "JSON \<Rightarrow> event \<Rightarrow> DirectLineStreaming \<Rightarrow> DirectLineStreaming" where
  "step J Subscribe s = unhandled (connectAsync (s\<lparr>activityQueue := []\<rparr>)) (s\<lparr>activityQueue := []\<rparr>)"
| "step J (Handshake h) s = connectAsync_response J h s"
| "step J Resume s = connectAsync_resume s"
| "step J (Disconnected e) s = disconnectionHandler e s"
| "step J RetryTimeout s = unhandled (connectAsync s) s"
| "step J (Inbound request_streams) s =
     (case processRequest J request_streams s of
        Inl e \<Rightarrow> emit (Throw e) s
      | Inr (statusCode, s') \<Rightarrow> emit (Respond statusCode) s')"
| "step J (Reconnect c t) s = unhandled (reconnect c t s) (s\<lparr>conversationId := c, token := t\<rparr>)"
| "step J End s = end_call s"
| "step J (RefreshTimeout retries) s = refreshToken False retries s"
| "step J (RefreshSuccess t) s = refreshToken_success t s"
| "step J (RefreshError status retries) s = refreshToken_error status retries s"

fun run :: "JSON \<Rightarrow> event list \<Rightarrow> DirectLineStreaming \<Rightarrow> DirectLineStreaming" where
  "run J [] s = s"
| "run J (ev # evs) s = run J evs (step J ev s)"

text \<open>
  What is sent to a consumer of \<open>connectionStatus$\<close> and \<open>activity$\<close>: the calls on the
  status subject and on the activity subscriber, in program order.
\<close>

fun consumer_visible :: "effect \<Rightarrow> bool" where
  "consumer_visible (StatusNext cs) = True"
| "consumer_visible (ActivityNext a) = True"
| "consumer_visible (ActivityError e) = True"
| "consumer_visible _ = False"

definition observed :: "DirectLineStreaming \<Rightarrow> effect list" where
  "observed s = filter consumer_visible (effects s)"

text \<open>
  What a subscriber of \<open>connectionStatus$\<close> sees: the value the behaviour subject
  holds when it subscribes, then every status published after that. For a subscriber
  from construction on, \<open>initial\<close> is the value the constructor gives the subject and
  \<open>es\<close> are the effects of the client since.
\<close>

fun status_of :: "effect \<Rightarrow> ConnectionStatus list" where
  "status_of (StatusNext cs) = [cs]"
| "status_of _ = []"

definition statuses :: "ConnectionStatus \<Rightarrow> effect list \<Rightarrow> ConnectionStatus list" where
  "statuses initial es = initial # concat (map status_of es)"

text \<open>The reconnect handshakes scheduled and the \<open>disconnect()\<close> calls made so far.\<close>

definition reconnects :: "effect list \<Rightarrow> nat" where
  "reconnects es = length (filter (\<lambda>e. e = SetTimeoutConnect) es)"

fun is_Disconnect :: "effect \<Rightarrow> bool" where
  "is_Disconnect (Disconnect k) = True"
| "is_Disconnect _ = False"

definition disconnects :: "effect list \<Rightarrow> nat" where
  "disconnects es = length (filter is_Disconnect es)"

text \<open>
  The refresher's error callbacks when every request of a tick with budget \<open>n\<close> fails
  with the same HTTP status: the attempt with budget \<open>n\<close> first, the one with budget
  0 last.
\<close>

fun refresh_failures :: "int \<Rightarrow> nat \<Rightarrow> event list" where
  "refresh_failures status 0 = [RefreshError status 0]"
| "refresh_failures status (Suc n) = RefreshError status (int (Suc n)) # refresh_failures status n"

text \<open>The budgets of the refresh ticks armed so far, in order.\<close>

fun refresh_timer :: "effect \<Rightarrow> int list" where
  "refresh_timer (SetTimeoutRefresh retries) = [retries]"
| "refresh_timer _ = []"

definition refresh_timers :: "effect list \<Rightarrow> int list" where
  "refresh_timers es = concat (map refresh_timer es)"

fun refresh_success :: "event \<Rightarrow> bool" where
  "refresh_success (RefreshSuccess t) = True"
| "refresh_success _ = False"

text \<open>The events the transport can still deliver: inbound requests and disconnections.\<close>

fun inbound_or_disconnection :: "event \<Rightarrow> bool" where
  "inbound_or_disconnection (Inbound request_streams) = True"
| "inbound_or_disconnection (Disconnected e) = True"
| "inbound_or_disconnection _ = False"







section \<open>Example values\<close>

text \<open>
  Concrete values on which the theorems below are evaluated: a parser that knows a
  handful of documents by name, streams, options, and the client after its first
  successful handshake.
\<close>

definition example_activity :: "string \<Rightarrow> Media list option \<Rightarrow> Activity" where
  "example_activity p atts =
     \<lparr>activity_type = ''message'', from_id = Some ''user1'', attachments = atts, payload = p\<rparr>"

definition example_JSON :: JSON where
  "example_JSON =
     \<lparr>parse_activities = (\<lambda>text.
          if text = ''[A]'' then Inr [example_activity ''A'' (Some [])]
          else if text = ''[B]'' then Inr [example_activity ''B'' (Some [])]
          else if text = ''[C]'' then Inr [example_activity ''C'' (Some [])]
          else if text = ''[D]'' then Inr [example_activity ''D'' (Some [])]
          else if text = ''[N]'' then Inr [example_activity ''N'' None]
          else if text = ''[A,B]'' then
            Inr [example_activity ''A'' (Some []), example_activity ''B'' (Some [])]
          else if text = ''[]'' then Inr []
          else Inl SyntaxError),
      parse_conversationId = (\<lambda>text. if text = ''c1'' then Inr (Some ''c1'') else Inl SyntaxError),
      parse_Id = (\<lambda>text. if text = ''id1'' then Inr (Some ''id1'') else Inl SyntaxError)\<rparr>"

definition example_stream :: "string \<Rightarrow> string \<Rightarrow> ContentStream" where
  "example_stream ct text = \<lparr>stream_contentType = ct, stream_text = text\<rparr>"

definition json_stream :: "string \<Rightarrow> ContentStream" where
  "json_stream text = example_stream ''application/json'' text"

definition example_options :: DirectLineStreamingOptions where
  "example_options =
     \<lparr>options_token = ''secret'', options_conversationId = None,
      options_domain = ''https://example.com''\<rparr>"

definition example_online :: DirectLineStreaming where
  "example_online =
     run example_JSON [Subscribe, Handshake (Response 200 [json_stream ''c1'']), Resume]
       (constructor example_options)"

definition example_fetch :: "string \<Rightarrow> string option" where
  "example_fetch url =
     (if url = ''http://host/a.png'' then Some ''PNGDATA''
      else if url = ''http://host/b.pdf'' then Some ''PDF''
      else None)"

definition example_stringify :: "Activity \<Rightarrow> string" where
  "example_stringify a =
     activity_type a @ '':'' @ payload a @
       (case attachments a of None \<Rightarrow> [] | Some atts \<Rightarrow> '':attachments'')"

definition example_message :: Activity where
  "example_message =
     example_activity ''M''
       (Some [\<lparr>contentType = ''image/png'', contentUrl = ''http://host/a.png''\<rparr>,
              \<lparr>contentType = ''application/pdf'', contentUrl = ''http://host/b.pdf''\<rparr>])"

section \<open>Properties\<close>


subsection \<open>Basic facts\<close>

lemmas example_defs =
  example_activity_def example_JSON_def example_stream_def json_stream_def example_options_def
  example_online_def example_fetch_def example_stringify_def example_message_def

lemmas client_defs =
  constructor_def refreshToken_def emit_def connectionStatus_next_def disconnect_def truthy_def
  readRequest_def processRequest_def flush_def connectAsync_def connectAsync_response_def
  connectAsync_resume_def disconnectionHandler_def reconnect_def end_call_def
  refreshToken_success_def refreshToken_error_def unhandled_def observed_def statuses_def
  reconnects_def disconnects_def MAX_RETRY_COUNT_def dataUri_def

lemma effects_emit: "effects (emit e s) = effects s @ [e]"
  by (simp add: emit_def)

lemma fields_emit:
  "connectionStatus (emit e s) = connectionStatus s"
  "retryCount (emit e s) = retryCount s"
  "domain (emit e s) = domain s"
  "conversationId (emit e s) = conversationId s"
  "token (emit e s) = token s"
  "streamConnection (emit e s) = streamConnection s"
  "queueActivities (emit e s) = queueActivities s"
  "activityQueue (emit e s) = activityQueue s"
  by (simp_all add: emit_def)

lemma effects_disconnect: "effects (disconnect s) = effects s @ [case streamConnection s of None \<Rightarrow> Throw TypeError | Some k \<Rightarrow> Disconnect k]"
  by (simp add: disconnect_def emit_def split: option.splits)

lemma fields_disconnect:
  "connectionStatus (disconnect s) = connectionStatus s"
  "retryCount (disconnect s) = retryCount s"
  "token (disconnect s) = token s"
  "streamConnection (disconnect s) = streamConnection s"
  "queueActivities (disconnect s) = queueActivities s"
  "activityQueue (disconnect s) = activityQueue s"
  by (simp_all add: disconnect_def emit_def split: option.splits)

lemma foldl_emit:
  "foldl (\<lambda>s' a. emit (f a) s') s xs = s\<lparr>effects := effects s @ map f xs\<rparr>"
  by (induction xs arbitrary: s) (simp_all add: emit_def)

lemma flush_eq: "flush s = s\<lparr>effects := effects s @ map ActivityNext (activityQueue s), activityQueue := []\<rparr>"
  by (simp add: flush_def foldl_emit)

lemma push_streams_append: "push_streams streams atts = atts @ map dataUri streams"
  by (induction streams arbitrary: atts) simp_all

lemma step_Inbound_accepted:
  assumes "readRequest J r = Inr (Some a)"
  shows "step J (Inbound r) s =
           emit (Respond 200)
             (if queueActivities s then s\<lparr>activityQueue := activityQueue s @ [a]\<rparr>
              else emit (ActivityNext a) s)"
  using assms by (simp add: processRequest_def)

subsection \<open>Startup queue\<close>

lemma run_Inbound_queued:
  assumes "list_all2 (\<lambda>r a. readRequest J r = Inr (Some a)) rs as"
    and "queueActivities s"
  shows "run J (map Inbound rs) s =
           s\<lparr>activityQueue := activityQueue s @ as,
             effects := effects s @ replicate (length rs) (Respond 200)\<rparr>"
  using assms
proof (induction rs as arbitrary: s rule: list_all2_induct)
  case Nil
  then show ?case by simp
next
  case (Cons r rs a as)
  have "run J (map Inbound (r # rs)) s =
          run J (map Inbound rs) (emit (Respond 200) (s\<lparr>activityQueue := activityQueue s @ [a]\<rparr>))"
    using Cons.hyps(1) Cons.prems by (simp add: step_Inbound_accepted del: step.simps)
  also have "\<dots> = s\<lparr>activityQueue := activityQueue s @ a # as,
             effects := effects s @ replicate (length (r # rs)) (Respond 200)\<rparr>"
    using Cons.prems by (subst Cons.IH) (simp_all add: emit_def replicate_append_same)
  finally show ?case .
qed

lemma filter_visible_Respond: "filter consumer_visible (replicate n (Respond c)) = []"
  by (induction n) simp_all

lemma filter_visible_ActivityNext: "filter consumer_visible (map ActivityNext as) = map ActivityNext as"
  by (induction as) simp_all

text \<open>
  For requests the handler reads successfully: while \<open>queueActivities\<close> is true they
  are appended to the startup queue and nothing is published, before the handshake
  publishes \<open>Online\<close> and between that publication and the flush. The continuation of
  the handshake then flushes the queue: \<open>Online\<close> was published, then every queued
  activity once, in arrival order; the queue is empty and queueing is off. An activity
  received after the flush is published after all of them.
\<close>

lemma startup_queue_flush:
  assumes queueing: "queueActivities s"
    and before: "list_all2 (\<lambda>r a. readRequest J r = Inr (Some a)) rs1 as1"
    and handshake: "parse_conversationId J (stream_text stream) = Inr c"
    and between: "list_all2 (\<lambda>r a. readRequest J r = Inr (Some a)) rs2 as2"
    and later: "readRequest J r3 = Inr (Some a3)"
  shows
    "let s1 = run J (map Inbound rs1) s;
         s2 = step J (Handshake (Response 200 [stream])) s1;
         s3 = run J (map Inbound rs2) s2;
         s4 = step J Resume s3;
         s5 = step J (Inbound r3) s4
     in observed s1 = observed s \<and>
        activityQueue s1 = activityQueue s @ as1 \<and>
        observed s3 = observed s @ [StatusNext Online] \<and>
        activityQueue s3 = activityQueue s @ as1 @ as2 \<and>
        observed s4 = observed s @ [StatusNext Online] @ map ActivityNext (activityQueue s @ as1 @ as2) \<and>
        activityQueue s4 = [] \<and>
        \<not> queueActivities s4 \<and>
        observed s5 = observed s4 @ [ActivityNext a3] \<and>
        activityQueue s5 = []"
proof -
  define s1 where "s1 = run J (map Inbound rs1) s"
  define s2 where "s2 = step J (Handshake (Response 200 [stream])) s1"
  define s3 where "s3 = run J (map Inbound rs2) s2"
  define s4 where "s4 = step J Resume s3"
  define s5 where "s5 = step J (Inbound r3) s4"
  have s1: "s1 = s\<lparr>activityQueue := activityQueue s @ as1,
                    effects := effects s @ replicate (length rs1) (Respond 200)\<rparr>"
    unfolding s1_def using before queueing by (rule run_Inbound_queued)
  have s2: "s2 = s1\<lparr>conversationId := c, connectionStatus := Online,
                     effects := effects s1 @ [StatusNext Online]\<rparr>"
    unfolding s2_def using handshake
    by (simp add: connectAsync_response_def connectionStatus_next_def emit_def)
  have q2: "queueActivities s2" by (simp add: s2 s1 queueing)
  have s3: "s3 = s2\<lparr>activityQueue := activityQueue s2 @ as2,
                     effects := effects s2 @ replicate (length rs2) (Respond 200)\<rparr>"
    unfolding s3_def using between q2 by (rule run_Inbound_queued)
  have s4: "s4 = s3\<lparr>effects := effects s3 @ map ActivityNext (activityQueue s3),
                     activityQueue := [], queueActivities := False,
                     retryCount := MAX_RETRY_COUNT\<rparr>"
    unfolding s4_def by (simp add: connectAsync_resume_def flush_eq)
  have s5: "s5 = s4\<lparr>effects := effects s4 @ [ActivityNext a3, Respond 200]\<rparr>"
    unfolding s5_def using later by (simp add: step_Inbound_accepted s4 emit_def del: step.simps)
  have "observed s1 = observed s" "activityQueue s1 = activityQueue s @ as1"
    by (simp_all add: s1 observed_def filter_visible_Respond)
  moreover have "observed s3 = observed s @ [StatusNext Online]"
    "activityQueue s3 = activityQueue s @ as1 @ as2"
    by (simp_all add: s3 s2 s1 observed_def filter_visible_Respond)
  moreover have "observed s4 = observed s @ [StatusNext Online] @ map ActivityNext (activityQueue s @ as1 @ as2)"
    "activityQueue s4 = []" "\<not> queueActivities s4"
    by (simp_all add: s4 s3 s2 s1 observed_def filter_visible_Respond filter_visible_ActivityNext)
  moreover have "observed s5 = observed s4 @ [ActivityNext a3]" "activityQueue s5 = []"
    by (simp_all add: s5 s4 observed_def)
  ultimately show ?thesis
    unfolding Let_def s1_def s2_def s3_def s4_def s5_def by blast
qed

lemma startup_queue_flush_example:
  "queueActivities (step example_JSON Subscribe (constructor example_options)) \<and>
   list_all2 (\<lambda>r a. readRequest example_JSON r = Inr (Some a))
     [[json_stream ''[A]''], [json_stream ''[B]'']]
     [example_activity ''A'' (Some []), example_activity ''B'' (Some [])] \<and>
   parse_conversationId example_JSON (stream_text (json_stream ''c1'')) = Inr (Some ''c1'') \<and>
   list_all2 (\<lambda>r a. readRequest example_JSON r = Inr (Some a))
     [[json_stream ''[C]'']] [example_activity ''C'' (Some [])] \<and>
   readRequest example_JSON [json_stream ''[D]''] = Inr (Some (example_activity ''D'' (Some []))) \<and>
   observed
     (run example_JSON
        [Subscribe, Inbound [json_stream ''[A]''], Inbound [json_stream ''[B]''],
         Handshake (Response 200 [json_stream ''c1'']), Inbound [json_stream ''[C]''],
         Resume, Inbound [json_stream ''[D]'']]
        (constructor example_options)) =
     [StatusNext Online,
      ActivityNext (example_activity ''A'' (Some [])),
      ActivityNext (example_activity ''B'' (Some [])),
      ActivityNext (example_activity ''C'' (Some [])),
      ActivityNext (example_activity ''D'' (Some []))]"
proof -
  let ?s = "step example_JSON Subscribe (constructor example_options)"
  have h1: "queueActivities ?s"
    by (simp add: client_defs example_defs)
  have h2: "list_all2 (\<lambda>r a. readRequest example_JSON r = Inr (Some a))
     [[json_stream ''[A]''], [json_stream ''[B]'']]
     [example_activity ''A'' (Some []), example_activity ''B'' (Some [])]"
    by (simp add: readRequest_def example_defs)
  have h3: "parse_conversationId example_JSON (stream_text (json_stream ''c1'')) = Inr (Some ''c1'')"
    by (simp add: example_defs)
  have h4: "list_all2 (\<lambda>r a. readRequest example_JSON r = Inr (Some a))
     [[json_stream ''[C]'']] [example_activity ''C'' (Some [])]"
    by (simp add: readRequest_def example_defs)
  have h5: "readRequest example_JSON [json_stream ''[D]''] = Inr (Some (example_activity ''D'' (Some [])))"
    by (simp add: readRequest_def example_defs)
  have s0: "observed ?s = []" "activityQueue ?s = []"
    by (simp_all add: client_defs example_defs)
  from startup_queue_flush [OF h1 h2 h3 h4 h5] s0 h1 h2 h3 h4 h5 show ?thesis
    by (simp add: Let_def del: step.simps)
qed

text \<open>
  C1. An inbound activity that arrives while \<open>queueActivities\<close> is true is appended to
  the startup queue and flushed after \<open>Online\<close>, when the handler reads its request
  (\<open>startup_queue_flush\<close>). An activity without an \<open>attachments\<close> field that arrives
  with one extra stream during the handshake is not: the handler throws before the
  routing step, the queue stays empty, and after the handshake the flush publishes
  nothing, so the activity is never delivered.
\<close>

theorem C1_unqueued_activity:
  "queueActivities (run example_JSON [Subscribe] (constructor example_options)) \<and>
   activityQueue
     (run example_JSON
        [Subscribe, Inbound [json_stream ''[N]'', example_stream ''image/png'' ''iVBORw0KGgo='']]
        (constructor example_options)) = [] \<and>
   observed
     (run example_JSON
        [Subscribe, Inbound [json_stream ''[N]'', example_stream ''image/png'' ''iVBORw0KGgo=''],
         Handshake (Response 200 [json_stream ''c1'']), Resume]
        (constructor example_options)) = [StatusNext Online]"
  by (simp add: client_defs example_defs)

subsection \<open>Retry budget\<close>

lemma reconnects_snoc: "reconnects (es @ [e]) = reconnects es + (if e = SetTimeoutConnect then 1 else 0)"
  by (simp add: reconnects_def)

lemma reconnects_disconnect: "reconnects (effects (disconnect s)) = reconnects (effects s)"
  by (simp add: effects_disconnect reconnects_snoc split: option.splits)

lemma reconnects_unhandled_connectAsync:
  "reconnects (effects (unhandled (connectAsync s) s')) = (if take 4 (domain s) \<noteq> ''http'' then reconnects (effects s') else reconnects (effects s))"
  by (simp add: unhandled_def connectAsync_def emit_def reconnects_def Let_def)

lemma retryCount_unhandled_connectAsync:
  "retryCount (unhandled (connectAsync s) s') = (if take 4 (domain s) \<noteq> ''http'' then retryCount s' else retryCount s)"
  by (simp add: unhandled_def connectAsync_def emit_def Let_def)

lemma step_budget:
  assumes "ev \<noteq> Resume"
  shows "reconnects (effects (step J ev s)) + nat (retryCount (step J ev s) - 1)
           \<le> reconnects (effects s) + nat (retryCount s - 1)"
proof (cases ev)
  case Subscribe
  then show ?thesis
    by (simp add: reconnects_unhandled_connectAsync retryCount_unhandled_connectAsync)
next
  case (Handshake h)
  then show ?thesis
    by (auto simp: connectAsync_response_def reconnects_disconnect fields_disconnect
        connectionStatus_next_def effects_emit fields_emit reconnects_snoc
        split: handshake.splits sum.splits)
next
  case Resume
  with assms show ?thesis by simp
next
  case (Disconnected e)
  then show ?thesis
    by (auto simp: disconnectionHandler_def connectionStatus_next_def emit_def reconnects_def Let_def)
next
  case RetryTimeout
  then show ?thesis
    by (simp add: reconnects_unhandled_connectAsync retryCount_unhandled_connectAsync)
next
  case (Inbound r)
  then show ?thesis
    by (auto simp: processRequest_def emit_def reconnects_def split: sum.splits option.splits)
next
  case (Reconnect c t)
  then show ?thesis
    by (simp add: reconnect_def reconnects_unhandled_connectAsync retryCount_unhandled_connectAsync)
next
  case End
  then show ?thesis
    by (simp add: end_call_def reconnects_disconnect fields_disconnect connectionStatus_next_def
        effects_emit fields_emit reconnects_snoc)
next
  case (RefreshTimeout n)
  then show ?thesis by (simp add: refreshToken_def emit_def reconnects_def)
next
  case (RefreshSuccess t)
  then show ?thesis by (simp add: refreshToken_success_def emit_def reconnects_def)
next
  case (RefreshError st n)
  then show ?thesis
    by (simp add: refreshToken_error_def refreshToken_def reconnects_disconnect fields_disconnect
        effects_emit fields_emit reconnects_snoc)
qed

lemma run_budget:
  assumes "Resume \<notin> set es"
  shows "reconnects (effects (run J es s)) + nat (retryCount (run J es s) - 1)
           \<le> reconnects (effects s) + nat (retryCount s - 1)"
  using assms
proof (induction es arbitrary: s)
  case Nil
  then show ?case by simp
next
  case (Cons ev es)
  have "reconnects (effects (run J es (step J ev s))) + nat (retryCount (run J es (step J ev s)) - 1)
          \<le> reconnects (effects (step J ev s)) + nat (retryCount (step J ev s) - 1)"
    using Cons.prems by (intro Cons.IH) simp
  also have "\<dots> \<le> reconnects (effects s) + nat (retryCount s - 1)"
    using Cons.prems by (intro step_budget) auto
  finally show ?case by simp
qed

text \<open>
  C2. The retry counter is \<open>MAX_RETRY_COUNT = 3\<close> after construction and after the
  continuation of every successful handshake. From a state with a full counter, a
  disconnection callback (status not \<open>Ended\<close>, token present) decrements the counter
  by one; along any sequence of events without a successful handshake at most
  \<open>MAX_RETRY_COUNT\<close> reconnect handshakes are scheduled; and when every reconnect
  fails, the third callback signals the terminal error on the activity subscriber, after
  two scheduled reconnects, with the counter at 0.
\<close>

theorem C2_retry_budget:
  assumes fresh: "retryCount s = MAX_RETRY_COUNT"
    and live: "connectionStatus s \<noteq> Ended" "truthy (token s)"
    and no_success: "Resume \<notin> set es"
  shows
    "retryCount (constructor options) = MAX_RETRY_COUNT \<and>
     retryCount (step J Resume s') = MAX_RETRY_COUNT \<and>
     retryCount (disconnectionHandler e s) = retryCount s - 1 \<and>
     reconnects (effects (run J es s)) \<le> reconnects (effects s) + nat MAX_RETRY_COUNT \<and>
     (let s3 = run J [Disconnected e1, RetryTimeout, Handshake Rejected,
                      Disconnected e2, RetryTimeout, Handshake Rejected,
                      Disconnected e3] s
      in observed s3 = observed s @ [StatusNext Connecting, StatusNext Connecting, ActivityError e3] \<and>
         reconnects (effects s3) = reconnects (effects s) + 2 \<and>
         retryCount s3 = 0)"
proof -
  have c1: "retryCount (constructor options) = MAX_RETRY_COUNT"
    by (simp add: constructor_def refreshToken_def emit_def)
  have c2: "retryCount (step J Resume s') = MAX_RETRY_COUNT"
    by (simp add: connectAsync_resume_def)
  have c3: "retryCount (disconnectionHandler e s) = retryCount s - 1"
    using live by (simp add: disconnectionHandler_def connectionStatus_next_def emit_def Let_def)
  have "reconnects (effects (run J es s)) + nat (retryCount (run J es s) - 1)
          \<le> reconnects (effects s) + nat (retryCount s - 1)"
    using no_success by (rule run_budget)
  then have c4: "reconnects (effects (run J es s)) \<le> reconnects (effects s) + nat MAX_RETRY_COUNT"
    using fresh by (simp add: MAX_RETRY_COUNT_def)
  define d1 where "d1 = disconnectionHandler e1 s"
  define t1 where "t1 = step J (Handshake Rejected) (step J RetryTimeout d1)"
  define d2 where "d2 = disconnectionHandler e2 t1"
  define t2 where "t2 = step J (Handshake Rejected) (step J RetryTimeout d2)"
  define d3 where "d3 = disconnectionHandler e3 t2"
  have keep: "connectionStatus (step J (Handshake Rejected) (step J RetryTimeout x)) = connectionStatus x"
    "token (step J (Handshake Rejected) (step J RetryTimeout x)) = token x"
    "retryCount (step J (Handshake Rejected) (step J RetryTimeout x)) = retryCount x"
    "observed (step J (Handshake Rejected) (step J RetryTimeout x)) = observed x"
    "reconnects (effects (step J (Handshake Rejected) (step J RetryTimeout x))) = reconnects (effects x)"
    for x
    by (simp_all add: connectAsync_response_def fields_disconnect unhandled_def connectAsync_def
        emit_def Let_def observed_def effects_disconnect reconnects_def split: option.splits)
  have d1: "connectionStatus d1 = Connecting" "token d1 = token s" "retryCount d1 = 2"
    "observed d1 = observed s @ [StatusNext Connecting]"
    "reconnects (effects d1) = reconnects (effects s) + 1"
    using live fresh
    by (simp_all add: d1_def disconnectionHandler_def connectionStatus_next_def emit_def Let_def
        MAX_RETRY_COUNT_def observed_def reconnects_def)
  have d2: "connectionStatus d2 = Connecting" "token d2 = token s" "retryCount d2 = 1"
    "observed d2 = observed s @ [StatusNext Connecting, StatusNext Connecting]"
    "reconnects (effects d2) = reconnects (effects s) + 2"
    using live d1 keep [of d1]
    by (simp_all add: d2_def t1_def disconnectionHandler_def connectionStatus_next_def emit_def
        Let_def observed_def reconnects_def)
  have d3: "retryCount d3 = 0"
    "observed d3 = observed s @ [StatusNext Connecting, StatusNext Connecting, ActivityError e3]"
    "reconnects (effects d3) = reconnects (effects s) + 2"
    using live d2 keep [of d2]
    by (simp_all add: d3_def t2_def disconnectionHandler_def connectionStatus_next_def emit_def
        Let_def observed_def reconnects_def)
  have "run J [Disconnected e1, RetryTimeout, Handshake Rejected,
               Disconnected e2, RetryTimeout, Handshake Rejected, Disconnected e3] s = d3"
    by (simp add: d3_def t2_def d2_def t1_def d1_def)
  with c1 c2 c3 c4 d3 show ?thesis
    by (simp add: Let_def del: run.simps step.simps)
qed

theorem C2_retry_budget_witness:
  "retryCount example_online = MAX_RETRY_COUNT \<and>
   connectionStatus example_online \<noteq> Ended \<and>
   truthy (token example_online) \<and>
   Resume \<notin> set [Disconnected ''closed'', RetryTimeout, Handshake Rejected, Disconnected ''closed''] \<and>
   reconnects (effects
     (run example_JSON [Disconnected ''closed'', RetryTimeout, Handshake Rejected, Disconnected ''closed'']
        example_online)) = 2 \<and>
   observed
     (run example_JSON
        [Disconnected ''e1'', RetryTimeout, Handshake Rejected,
         Disconnected ''e2'', RetryTimeout, Handshake Rejected, Disconnected ''e3'']
        example_online) =
     [StatusNext Online, StatusNext Connecting, StatusNext Connecting, ActivityError ''e3'']"
proof -
  have h1: "retryCount example_online = MAX_RETRY_COUNT"
    by (simp add: client_defs example_defs)
  have h2: "connectionStatus example_online \<noteq> Ended"
    by (simp add: client_defs example_defs)
  have h3: "truthy (token example_online)"
    by (simp add: client_defs example_defs)
  have h4: "Resume \<notin> set [Disconnected ''closed'', RetryTimeout, Handshake Rejected, Disconnected ''closed'']"
    by simp
  have o: "observed example_online = [StatusNext Online]"
    by (simp add: client_defs example_defs)
  have r: "reconnects (effects
     (run example_JSON [Disconnected ''closed'', RetryTimeout, Handshake Rejected, Disconnected ''closed'']
        example_online)) = 2"
    by (simp add: client_defs example_defs)
  from C2_retry_budget [OF h1 h2 h3 h4, of example_options example_JSON example_online
      "''closed''" "''e1''" "''e2''" "''e3''"] h1 h2 h3 h4 o r
  show ?thesis
    by (simp add: Let_def del: step.simps run.simps)
qed

subsection \<open>Attachments of an inbound request\<close>

lemma readRequest_attaches:
  assumes "parse_activities J (stream_text stream0) = Inr [activity]"
    and "attachments activity = Some atts"
    and "streams \<noteq> []"
  shows "readRequest J (stream0 # streams) =
           Inr (Some (activity\<lparr>attachments := Some (atts @ map dataUri streams)\<rparr>))"
  using assms by (simp add: readRequest_def push_streams_append)

lemma readRequest_attaches_example:
  "readRequest example_JSON
     [json_stream ''[A]'', example_stream ''image/png'' ''iVBORw0KGgo='',
      example_stream ''application/pdf'' ''JVBERi0xLjQ='']
   = Inr (Some (example_activity ''A''
       (Some [\<lparr>contentType = ''image/png'', contentUrl = ''data:text/plain;base64,iVBORw0KGgo=''\<rparr>,
              \<lparr>contentType = ''application/pdf'', contentUrl = ''data:text/plain;base64,JVBERi0xLjQ=''\<rparr>])))"
  by (simp add: readRequest_def dataUri_def example_defs)

text \<open>
  C3. The claim holds for an activity that carries an \<open>attachments\<close> array
  (\<open>readRequest_attaches\<close>, and \<open>readRequest_attaches_example\<close> for the two streams
  typed \<open>image/png\<close> and \<open>application/pdf\<close>). For an activity without the field the
  spread \<open>[...activity.attachments]\<close> throws: with one activity and two extra streams
  nothing is appended and the handler ends with a \<open>TypeError\<close>.
\<close>

theorem C3_absent_attachments:
  "readRequest example_JSON
     [json_stream ''[N]'', example_stream ''image/png'' ''iVBORw0KGgo='',
      example_stream ''application/pdf'' ''JVBERi0xLjQ='']
   = Inl TypeError"
  by (simp add: readRequest_def example_defs)

subsection \<open>Response of the inbound handler\<close>

lemma processRequest_not_one:
  assumes "parse_activities J (stream_text stream0) = Inr activities"
    and "length activities \<noteq> 1"
  shows "processRequest J (stream0 # streams) s =
           Inr (500, emit (ActivityError ''there should be exactly one activity'') s)"
  using assms by (simp add: processRequest_def readRequest_def)

lemma processRequest_one:
  assumes "parse_activities J (stream_text stream0) = Inr [activity]"
    and "streams = [] \<or> attachments activity \<noteq> None"
  shows "\<exists>a. readRequest J (stream0 # streams) = Inr (Some a) \<and>
           processRequest J (stream0 # streams) s =
             Inr (200, if queueActivities s then s\<lparr>activityQueue := activityQueue s @ [a]\<rparr>
                       else emit (ActivityNext a) s)"
  using assms by (auto simp: processRequest_def readRequest_def)

lemma processRequest_not_one_example:
  "processRequest example_JSON [json_stream ''[A,B]''] example_online =
     Inr (500, emit (ActivityError ''there should be exactly one activity'') example_online) \<and>
   processRequest example_JSON [json_stream ''[]''] example_online =
     Inr (500, emit (ActivityError ''there should be exactly one activity'') example_online)"
  by (simp add: processRequest_def readRequest_def example_JSON_def json_stream_def
      example_stream_def)

text \<open>
  C4. An activity set that does not hold exactly one activity signals the error on the
  activity subscriber and is answered with 500 (\<open>processRequest_not_one\<close>); one
  activity is queued or published and answered with 200 when it has no extra streams or
  carries an \<open>attachments\<close> array (\<open>processRequest_one\<close>). A request with exactly one
  activity that has no \<open>attachments\<close> field, and one extra stream, is neither queued nor
  published nor answered: the handler throws a \<open>TypeError\<close>.
\<close>

theorem C4_single_activity_throws:
  "processRequest example_JSON [json_stream ''[N]'', example_stream ''image/png'' ''iVBORw0KGgo='']
     example_online = Inl TypeError \<and>
   effects (step example_JSON
      (Inbound [json_stream ''[N]'', example_stream ''image/png'' ''iVBORw0KGgo='']) example_online)
     = effects example_online @ [Throw TypeError]"
  by (simp add: processRequest_def readRequest_def emit_def example_stream_def json_stream_def
      example_JSON_def example_activity_def)

subsection \<open>Errors of the token refresh\<close>

lemma effects_refreshToken_online:
  "connectionStatus s = Online \<Longrightarrow> refreshToken False retries s = emit (AjaxPost retries) s"
  by (simp add: refreshToken_def)

lemma run_refresh_failures:
  assumes "streamConnection s = Some k" and "connectionStatus s = Online"
    and "status \<noteq> 403" and "status \<noteq> 404"
  shows "run J (refresh_failures status n) (emit (AjaxPost (int n)) s) =
           emit (Disconnect k)
             (s\<lparr>token := None,
                effects := effects s @ map (\<lambda>i. AjaxPost (int i)) (rev [0..<Suc n])\<rparr>)"
  using assms
proof (induction n arbitrary: s)
  case 0
  then show ?case
    by (simp add: refreshToken_error_def disconnect_def emit_def)
next
  case (Suc n)
  have "run J (refresh_failures status (Suc n)) (emit (AjaxPost (int (Suc n))) s) =
          run J (refresh_failures status n) (emit (AjaxPost (int n)) (emit (AjaxPost (int (Suc n))) s))"
    using Suc.prems by (simp add: refreshToken_error_def refreshToken_def emit_def)
  also have "\<dots> = emit (Disconnect k)
             ((emit (AjaxPost (int (Suc n))) s)\<lparr>token := None,
                effects := effects (emit (AjaxPost (int (Suc n))) s) @ map (\<lambda>i. AjaxPost (int i)) (rev [0..<Suc n])\<rparr>)"
    using Suc.prems by (intro Suc.IH) (simp_all add: emit_def)
  also have "\<dots> = emit (Disconnect k)
             (s\<lparr>token := None,
                effects := effects s @ map (\<lambda>i. AjaxPost (int i)) (rev [0..<Suc (Suc n)])\<rparr>)"
    by (simp add: emit_def)
  finally show ?case .
qed

text \<open>
  C5. With a transport in place: on a refresh error with status 403 or 404 the only
  thing the error callback does is disconnect the transport (no request is posted and
  no tick is armed). On any other status, with budget \<open>retries > 0\<close> it calls
  \<open>refreshToken(false, retries - 1)\<close> at once, which posts the next request when the
  status is \<open>Online\<close>; with the budget exhausted it sets the token to \<open>None\<close> and
  disconnects. So a tick with budget \<open>n\<close> that runs while \<open>Online\<close> and whose requests
  all fail posts \<open>n + 1\<close> requests, with budgets \<open>n\<close> down to 0, then clears the token and
  disconnects.
\<close>

theorem C5_refresh_errors:
  assumes transport: "streamConnection s = Some k"
    and other: "status \<noteq> 403" "status \<noteq> 404"
  shows
    "refreshToken_error 403 retries s = emit (Disconnect k) s \<and>
     refreshToken_error 404 retries s = emit (Disconnect k) s \<and>
     (0 < retries \<longrightarrow>
        refreshToken_error status retries s = refreshToken False (retries - 1) s) \<and>
     (0 < retries \<longrightarrow> connectionStatus s = Online \<longrightarrow>
        refreshToken_error status retries s = emit (AjaxPost (retries - 1)) s) \<and>
     (retries \<le> 0 \<longrightarrow>
        refreshToken_error status retries s = emit (Disconnect k) (s\<lparr>token := None\<rparr>)) \<and>
     (connectionStatus s = Online \<longrightarrow>
        run J (RefreshTimeout (int n) # refresh_failures status n) s =
          emit (Disconnect k)
            (s\<lparr>token := None,
               effects := effects s @ map (\<lambda>i. AjaxPost (int i)) (rev [0..<Suc n])\<rparr>))"
proof -
  have "refreshToken_error 403 retries s = emit (Disconnect k) s"
    "refreshToken_error 404 retries s = emit (Disconnect k) s"
    using transport by (simp_all add: refreshToken_error_def disconnect_def)
  moreover have "0 < retries \<longrightarrow>
      refreshToken_error status retries s = refreshToken False (retries - 1) s"
    using other by (simp add: refreshToken_error_def)
  moreover have "0 < retries \<longrightarrow> connectionStatus s = Online \<longrightarrow>
      refreshToken_error status retries s = emit (AjaxPost (retries - 1)) s"
    using other by (simp add: refreshToken_error_def refreshToken_def)
  moreover have "retries \<le> 0 \<longrightarrow>
        refreshToken_error status retries s = emit (Disconnect k) (s\<lparr>token := None\<rparr>)"
    using other transport by (simp add: refreshToken_error_def disconnect_def)
  moreover have "connectionStatus s = Online \<longrightarrow>
      run J (RefreshTimeout (int n) # refresh_failures status n) s =
       emit (Disconnect k)
         (s\<lparr>token := None, effects := effects s @ map (\<lambda>i. AjaxPost (int i)) (rev [0..<Suc n])\<rparr>)"
  proof
    assume online: "connectionStatus s = Online"
    show "run J (RefreshTimeout (int n) # refresh_failures status n) s =
       emit (Disconnect k)
         (s\<lparr>token := None, effects := effects s @ map (\<lambda>i. AjaxPost (int i)) (rev [0..<Suc n])\<rparr>)"
      using run_refresh_failures [OF transport online other, of J n] online
      by (simp add: effects_refreshToken_online del: upt_Suc)
  qed
  ultimately show ?thesis by blast
qed

theorem C5_refresh_errors_witness:
  "streamConnection example_online = Some 0 \<and>
   (500::int) \<noteq> 403 \<and> (500::int) \<noteq> 404 \<and>
   (0::int) < 3 \<and> connectionStatus example_online = Online \<and>
   effects (refreshToken_error 403 3 example_online) = effects example_online @ [Disconnect 0] \<and>
   effects (refreshToken_error 500 3 example_online) = effects example_online @ [AjaxPost 2] \<and>
   token (refreshToken_error 500 0 example_online) = None \<and>
   effects (refreshToken_error 500 0 example_online) = effects example_online @ [Disconnect 0] \<and>
   effects (run example_JSON
       [RefreshTimeout 2, RefreshError 500 2, RefreshError 500 1, RefreshError 500 0] example_online)
     = effects example_online @ [AjaxPost 2, AjaxPost 1, AjaxPost 0, Disconnect 0]"
proof -
  have h1: "streamConnection example_online = Some 0"
    by (simp add: client_defs example_defs)
  have h2: "connectionStatus example_online = Online"
    by (simp add: client_defs example_defs)
  have h3: "(500::int) \<noteq> 403" and h4: "(500::int) \<noteq> 404"
    by simp_all
  have n: "refresh_failures 500 2 = [RefreshError 500 2, RefreshError 500 1, RefreshError 500 0]"
    by (simp add: numeral_2_eq_2)
  have u: "map (\<lambda>i. AjaxPost (int i)) (rev [0..<Suc 2]) = [AjaxPost 2, AjaxPost 1, AjaxPost 0]"
    by (simp add: numeral_2_eq_2)
  note t = C5_refresh_errors [OF h1 h3 h4, of _ example_JSON 2, unfolded n u]
  from t [of 3] t [of 0] h1 h2 show ?thesis
    by (simp add: effects_refreshToken_online effects_emit fields_emit del: run.simps)
qed

subsection \<open>Upload of a message with attachments\<close>

lemma receive_arrival_order:
  assumes "\<forall>i\<in>set arrival. i < length atts \<and> fetch (contentUrl (atts ! i)) \<noteq> None"
  shows "receive fetch atts arrival acc = Inr (acc @ map (\<lambda>i. fetched fetch (atts ! i)) arrival)"
  using assms by (induction arrival arbitrary: acc) (auto simp: fetched_def)

lemma postMessageWithAttachments_gets_first:
  "\<exists>rest. fst (postMessageWithAttachments fetch stringify c message arrival) =
      map (\<lambda>media. AjaxGet (contentUrl media))
        (case attachments message of None \<Rightarrow> [] | Some a \<Rightarrow> a) @ rest \<and>
      (rest = [] \<or> (\<exists>request. rest = [Send request]))"
  by (auto simp: postMessageWithAttachments_def Let_def split: sum.splits option.splits)

lemma postMessageWithAttachments_streams:
  assumes "attachments message = Some atts"
    and "from_id message = Some fromId"
    and "set arrival = {..<length atts}"
    and "\<forall>media\<in>set atts. fetch (contentUrl media) \<noteq> None"
  shows "\<exists>url. postMessageWithAttachments fetch stringify c message arrival =
           (map (\<lambda>media. AjaxGet (contentUrl media)) atts @
              [Send (StreamingRequest ''PUT'' url
                 (\<lparr>content_type = ''application/vnd.microsoft.activity'',
                   content_length = length (stringify (message\<lparr>attachments := None\<rparr>)),
                   content_bytes = stringify (message\<lparr>attachments := None\<rparr>)\<rparr>
                  # map (\<lambda>i. fetched fetch (atts ! i)) arrival))],
            None)"
proof -
  have "\<forall>i\<in>set arrival. i < length atts \<and> fetch (contentUrl (atts ! i)) \<noteq> None"
    using assms(3,4) by auto
  then have "receive fetch atts arrival [] = Inr (map (\<lambda>i. fetched fetch (atts ! i)) arrival)"
    by (simp add: receive_arrival_order)
  moreover have "list_all (\<lambda>i. i \<in> set arrival) [0..<length atts]"
    using assms(3) by (simp add: list_all_iff)
  ultimately show ?thesis
    using assms(1,2) by (simp add: postMessageWithAttachments_def Let_def)
qed

lemma postMessageWithAttachments_source_order:
  assumes "attachments message = Some atts"
    and "from_id message = Some fromId"
    and "\<forall>media\<in>set atts. fetch (contentUrl media) \<noteq> None"
  shows "\<exists>url. postMessageWithAttachments fetch stringify c message [0..<length atts] =
           (map (\<lambda>media. AjaxGet (contentUrl media)) atts @
              [Send (StreamingRequest ''PUT'' url
                 (\<lparr>content_type = ''application/vnd.microsoft.activity'',
                   content_length = length (stringify (message\<lparr>attachments := None\<rparr>)),
                   content_bytes = stringify (message\<lparr>attachments := None\<rparr>)\<rparr>
                  # map (fetched fetch) atts))],
            None)"
proof -
  have "map (\<lambda>i. fetched fetch (atts ! i)) [0..<length atts] = map (fetched fetch) atts"
    by (rule nth_equalityI) simp_all
  moreover have "set [0..<length atts] = {..<length atts}"
    by auto
  ultimately show ?thesis
    using postMessageWithAttachments_streams [OF assms(1,2) _ assms(3), of "[0..<length atts]" stringify c]
    by simp
qed

text \<open>
  C6. Every download is issued before the upload is sent
  (\<open>postMessageWithAttachments_gets_first\<close>), and the first stream of the upload is the
  message without its attachments, typed \<open>application/vnd.microsoft.activity\<close>
  (\<open>postMessageWithAttachments_streams\<close>). The attachment streams follow in the order in
  which the downloads complete, which is the order of the \<open>attachments\<close> array only when
  they complete in that order (\<open>postMessageWithAttachments_source_order\<close>). Here the
  second attachment's download completes first, and the upload carries the PDF before
  the PNG.
\<close>

theorem C6_completion_order:
  "postMessageWithAttachments example_fetch example_stringify (Some ''c1'') example_message [1, 0] =
     ([AjaxGet ''http://host/a.png'', AjaxGet ''http://host/b.pdf'',
       Send (StreamingRequest ''PUT'' ''/v3/directline/conversations/c1/users/user1/upload''
         [\<lparr>content_type = ''application/vnd.microsoft.activity'', content_length = 9,
           content_bytes = ''message:M''\<rparr>,
          \<lparr>content_type = ''application/pdf'', content_length = 3, content_bytes = ''PDF''\<rparr>,
          \<lparr>content_type = ''image/png'', content_length = 7, content_bytes = ''PNGDATA''\<rparr>])],
      None)"
  by (simp add: postMessageWithAttachments_def example_message_def example_activity_def
      example_fetch_def example_stringify_def Let_def)

subsection \<open>Response to the upload\<close>

text \<open>
  C7 (as amended). A response that carries a \<open>streams\<close> list must hold exactly one
  stream: with one stream whose JSON reads as \<open>{ Id }\<close>, the id is published to the
  result channel; with any other number of streams, zero included, the error
  \<open>Invalid stream count n\<close> is signalled on the result channel and no id is published.
\<close>

theorem C7_upload_response:
  "(length ss \<noteq> 1 \<longrightarrow> upload_response J (Some ss) = ([ResultError (length ss)], None)) \<and>
   (parse_Id J (stream_text stream) = Inr i \<longrightarrow>
      upload_response J (Some [stream]) = ([ResultNext i], None))"
  by (simp add: upload_response_def)

theorem C7_upload_response_witness:
  "length [json_stream ''id1'', json_stream ''id1''] \<noteq> 1 \<and>
   length ([] :: ContentStream list) \<noteq> 1 \<and>
   parse_Id example_JSON (stream_text (json_stream ''id1'')) = Inr (Some ''id1'') \<and>
   upload_response example_JSON (Some [json_stream ''id1'', json_stream ''id1''])
     = ([ResultError 2], None) \<and>
   upload_response example_JSON (Some []) = ([ResultError 0], None) \<and>
   upload_response example_JSON (Some [json_stream ''id1'']) = ([ResultNext (Some ''id1'')], None)"
proof -
  have h1: "length [json_stream ''id1'', json_stream ''id1''] \<noteq> 1"
    by simp
  have h2: "parse_Id example_JSON (stream_text (json_stream ''id1'')) = Inr (Some ''id1'')"
    by (simp add: example_defs)
  have h3: "length ([] :: ContentStream list) \<noteq> 1"
    by simp
  from C7_upload_response [of "[json_stream ''id1'', json_stream ''id1'']" example_JSON
      "json_stream ''id1''" "Some ''id1''"]
    C7_upload_response [of "[]" example_JSON "json_stream ''id1''" "Some ''id1''"] h1 h2 h3
  show ?thesis by simp
qed

theorem C7_empty_streams_error:
  "upload_response example_JSON (Some []) = ([ResultError 0], None)"
  by (simp add: upload_response_def)

subsection \<open>After end\<close>

lemma statuses_snoc: "statuses i (es @ [e]) = statuses i es @ status_of e"
  by (simp add: statuses_def)



lemma disconnects_snoc: "disconnects (es @ [e]) = disconnects es + (if is_Disconnect e then 1 else 0)"
  by (simp add: disconnects_def)

lemma step_after_end:
  assumes "connectionStatus s = Ended" and "inbound_or_disconnection ev"
  shows "connectionStatus (step J ev s) = Ended \<and>
         statuses i (effects (step J ev s)) = statuses i (effects s) \<and>
         reconnects (effects (step J ev s)) = reconnects (effects s) \<and>
         disconnects (effects (step J ev s)) = disconnects (effects s)"
proof (cases ev)
  case (Inbound r)
  then show ?thesis
    using assms(1)
    by (auto simp: processRequest_def effects_emit fields_emit statuses_snoc reconnects_snoc
        disconnects_snoc split: sum.splits option.splits)
next
  case (Disconnected e)
  then show ?thesis
    using assms(1) by (simp add: disconnectionHandler_def)
qed (use assms(2) in simp_all)

lemma run_after_end:
  assumes "connectionStatus s = Ended" and "list_all inbound_or_disconnection es"
  shows "connectionStatus (run J es s) = Ended \<and>
         statuses i (effects (run J es s)) = statuses i (effects s) \<and>
         reconnects (effects (run J es s)) = reconnects (effects s) \<and>
         disconnects (effects (run J es s)) = disconnects (effects s)"
  using assms
proof (induction es arbitrary: s)
  case Nil
  then show ?case by simp
next
  case (Cons ev es)
  have ev: "inbound_or_disconnection ev" and es: "list_all inbound_or_disconnection es"
    using Cons.prems(2) by simp_all
  note one = step_after_end [OF Cons.prems(1) ev, of J]
  from one have "connectionStatus (step J ev s) = Ended" by blast
  from Cons.IH [OF this es] one show ?case by simp
qed

text \<open>
  What holds after \<open>end()\<close> as long as the only events are inbound requests and
  disconnection callbacks: with a transport in place, \<open>end()\<close> publishes \<open>Ended\<close> and
  disconnects; every later disconnection callback is a no-op, no status is published,
  no reconnect is scheduled and no further \<open>disconnect()\<close> call is made.
\<close>

lemma end_then_inbound_or_disconnection:
  assumes transport: "streamConnection s = Some k"
    and events: "list_all inbound_or_disconnection es"
  shows
    "effects (end_call s) = effects s @ [StatusNext Ended, Disconnect k] \<and>
     connectionStatus (end_call s) = Ended \<and>
     disconnectionHandler e (run J es (end_call s)) = run J es (end_call s) \<and>
     connectionStatus (run J es (end_call s)) = Ended \<and>
     statuses i (effects (run J es (end_call s))) = statuses i (effects s) @ [Ended] \<and>
     reconnects (effects (run J es (end_call s))) = reconnects (effects s) \<and>
     disconnects (effects (run J es (end_call s))) = disconnects (effects s) + 1"
proof -
  have e1: "effects (end_call s) = effects s @ [StatusNext Ended, Disconnect k]"
    using transport by (simp add: end_call_def disconnect_def connectionStatus_next_def emit_def)
  have e2: "connectionStatus (end_call s) = Ended"
    by (simp add: end_call_def fields_disconnect connectionStatus_next_def emit_def)
  note after = run_after_end [OF e2 events, of J i]
  have e3: "disconnectionHandler e (run J es (end_call s)) = run J es (end_call s)"
    using after by (simp add: disconnectionHandler_def)
  have e5: "statuses i (effects (end_call s)) = statuses i (effects s) @ [Ended]"
    "reconnects (effects (end_call s)) = reconnects (effects s)"
    "disconnects (effects (end_call s)) = disconnects (effects s) + 1"
    by (simp_all add: e1 statuses_def reconnects_def disconnects_def)
  from e1 e2 e3 after e5 show ?thesis by simp
qed

text \<open>
  C8. \<open>end()\<close> publishes \<open>Ended\<close> and disconnects, and the disconnection callback and
  the refresher test for \<open>Ended\<close>; \<open>connectAsync\<close> and the inbound handler do not. With
  a reconnect timer armed before \<open>end()\<close>, the timer fires after it: a new transport is
  opened, the handshake publishes \<open>Online\<close> after \<open>Ended\<close>, the next disconnection
  publishes \<open>Connecting\<close> and schedules another reconnect, and the failure of that
  handshake calls \<open>disconnect()\<close> a second time. An inbound request after \<open>end()\<close> is
  published to the activity subscriber.
\<close>

theorem C8_reconnect_after_end:
  "statuses (connectionStatus (constructor example_options))
     (effects (run example_JSON
        [Disconnected ''closed'', End, RetryTimeout, Handshake (Response 200 [json_stream ''c1'']),
         Resume, Disconnected ''closed'', RetryTimeout, Handshake Rejected]
        example_online))
     = [Uninitialized, Online, Connecting, Ended, Online, Connecting] \<and>
   reconnects (effects (run example_JSON [Disconnected ''closed'', End] example_online)) = 1 \<and>
   reconnects (effects (run example_JSON
        [Disconnected ''closed'', End, RetryTimeout, Handshake (Response 200 [json_stream ''c1'']),
         Resume, Disconnected ''closed'', RetryTimeout, Handshake Rejected]
        example_online)) = 2 \<and>
   disconnects (effects (run example_JSON
        [Disconnected ''closed'', End, RetryTimeout, Handshake (Response 200 [json_stream ''c1'']),
         Resume, Disconnected ''closed'', RetryTimeout, Handshake Rejected]
        example_online)) = 2 \<and>
   observed (run example_JSON [End, Inbound [json_stream ''[A]'']] example_online) =
     [StatusNext Online, StatusNext Ended, ActivityNext (example_activity ''A'' (Some []))]"
  by (simp add: client_defs example_defs)

subsection \<open>Published statuses\<close>






















subsection \<open>Budget of the refresh ticks\<close>

lemma refresh_timers_append: "refresh_timers (xs @ ys) = refresh_timers xs @ refresh_timers ys"
  by (simp add: refresh_timers_def)

lemma refresh_timers_snoc: "refresh_timers (es @ [e]) = refresh_timers es @ refresh_timer e"
  by (simp add: refresh_timers_def)

lemma refresh_timers_ActivityNext: "refresh_timers (map ActivityNext as) = []"
  by (induction as) (simp_all add: refresh_timers_def)

lemma refresh_timers_disconnect: "refresh_timers (effects (disconnect s)) = refresh_timers (effects s)"
  by (simp add: effects_disconnect refresh_timers_def split: option.splits)

lemma refresh_timers_unhandled_connectAsync:
  "refresh_timers (effects (unhandled (connectAsync s) s')) =
     (if take 4 (domain s) \<noteq> ''http'' then refresh_timers (effects s') else refresh_timers (effects s))"
  by (simp add: unhandled_def connectAsync_def emit_def refresh_timers_def Let_def)

lemma step_refresh_timers:
  "refresh_timers (effects (step J ev s)) =
     refresh_timers (effects s) @ (if refresh_success ev then [MAX_RETRY_COUNT] else [])"
proof (cases ev)
  case Subscribe
  then show ?thesis by (simp add: refresh_timers_unhandled_connectAsync)
next
  case (Handshake h)
  then show ?thesis
    by (auto simp: connectAsync_response_def refresh_timers_disconnect connectionStatus_next_def
        effects_emit refresh_timers_snoc split: handshake.splits sum.splits)
next
  case Resume
  then show ?thesis
    by (simp add: connectAsync_resume_def flush_eq refresh_timers_append refresh_timers_ActivityNext)
next
  case (Disconnected e)
  then show ?thesis
    by (simp add: disconnectionHandler_def connectionStatus_next_def emit_def refresh_timers_def Let_def)
next
  case RetryTimeout
  then show ?thesis by (simp add: refresh_timers_unhandled_connectAsync)
next
  case (Inbound r)
  then show ?thesis
    by (auto simp: processRequest_def emit_def refresh_timers_def split: sum.splits option.splits)
next
  case (Reconnect c t)
  then show ?thesis by (simp add: reconnect_def refresh_timers_unhandled_connectAsync)
next
  case End
  then show ?thesis
    by (simp add: end_call_def refresh_timers_disconnect connectionStatus_next_def effects_emit
        refresh_timers_snoc)
next
  case (RefreshTimeout n)
  then show ?thesis by (simp add: refreshToken_def emit_def refresh_timers_def)
next
  case (RefreshSuccess t)
  then show ?thesis by (simp add: refreshToken_success_def emit_def refresh_timers_def)
next
  case (RefreshError st n)
  then show ?thesis
    by (simp add: refreshToken_error_def refreshToken_def refresh_timers_disconnect effects_emit
        refresh_timers_snoc)
qed

lemma run_refresh_timers:
  "refresh_timers (effects (run J es s)) =
     refresh_timers (effects s) @ replicate (length (filter refresh_success es)) MAX_RETRY_COUNT"
  by (induction es arbitrary: s) (simp_all add: step_refresh_timers del: step.simps)

text \<open>
  C10. The constructor arms exactly one refresh tick, with budget 0. When that tick runs
  (status \<open>Online\<close>, a transport in place) and its request fails with a status other
  than 403 and 404, the error callback posts no retry: it sets the token to \<open>None\<close> and
  disconnects. Along any sequence of events the ticks armed after the first are armed by
  the success callback of a refresh, one per success, each with budget
  \<open>MAX_RETRY_COUNT\<close>.
\<close>

theorem C10_first_tick_budget:
  assumes transport: "streamConnection s = Some k"
    and online: "connectionStatus s = Online"
    and other: "status \<noteq> 403" "status \<noteq> 404"
  shows
    "effects (constructor options) = [SetTimeoutRefresh 0] \<and>
     effects (run J [RefreshTimeout 0, RefreshError status 0] s)
       = effects s @ [AjaxPost 0, Disconnect k] \<and>
     token (run J [RefreshTimeout 0, RefreshError status 0] s) = None \<and>
     effects (refreshToken_success t s') = effects s' @ [SetTimeoutRefresh MAX_RETRY_COUNT] \<and>
     refresh_timers (effects (run J es (constructor options)))
       = 0 # replicate (length (filter refresh_success es)) MAX_RETRY_COUNT"
proof -
  have c: "effects (constructor options) = [SetTimeoutRefresh 0]"
    by (simp add: constructor_def refreshToken_def emit_def)
  have "run J [RefreshTimeout 0, RefreshError status 0] s =
          emit (Disconnect k) ((emit (AjaxPost 0) s)\<lparr>token := None\<rparr>)"
    using transport online other
    by (simp add: refreshToken_def refreshToken_error_def disconnect_def emit_def)
  then have r: "effects (run J [RefreshTimeout 0, RefreshError status 0] s)
       = effects s @ [AjaxPost 0, Disconnect k]"
    "token (run J [RefreshTimeout 0, RefreshError status 0] s) = None"
    by (simp_all add: emit_def del: run.simps)
  have s: "effects (refreshToken_success t s') = effects s' @ [SetTimeoutRefresh MAX_RETRY_COUNT]"
    by (simp add: refreshToken_success_def emit_def)
  have "refresh_timers (effects (constructor options)) = [0]"
    by (simp add: c refresh_timers_def)
  then have "refresh_timers (effects (run J es (constructor options)))
       = 0 # replicate (length (filter refresh_success es)) MAX_RETRY_COUNT"
    by (simp add: run_refresh_timers)
  with c r s show ?thesis by blast
qed

theorem C10_first_tick_budget_witness:
  "streamConnection example_online = Some 0 \<and>
   connectionStatus example_online = Online \<and>
   (500::int) \<noteq> 403 \<and> (500::int) \<noteq> 404 \<and>
   effects (constructor example_options) = [SetTimeoutRefresh 0] \<and>
   effects (run example_JSON [RefreshTimeout 0, RefreshError 500 0] example_online)
     = effects example_online @ [AjaxPost 0, Disconnect 0] \<and>
   token (run example_JSON [RefreshTimeout 0, RefreshError 500 0] example_online) = None \<and>
   refresh_timers (effects (run example_JSON
       [Subscribe, Handshake (Response 200 [json_stream ''c1'']), Resume,
        RefreshTimeout 0, RefreshSuccess (Some ''t2''), RefreshTimeout 3, RefreshError 500 3]
       (constructor example_options))) = [0, 3]"
proof -
  have h1: "streamConnection example_online = Some 0"
    by (simp add: client_defs example_defs)
  have h2: "connectionStatus example_online = Online"
    by (simp add: client_defs example_defs)
  have h3: "(500::int) \<noteq> 403" and h4: "(500::int) \<noteq> 404"
    by simp_all
  from C10_first_tick_budget [OF h1 h2 h3 h4, of example_options example_JSON _ _
      "[Subscribe, Handshake (Response 200 [json_stream ''c1'']), Resume,
        RefreshTimeout 0, RefreshSuccess (Some ''t2''), RefreshTimeout 3, RefreshError 500 3]"]
    h1 h2
  show ?thesis
    by (simp add: MAX_RETRY_COUNT_def del: run.simps)
qed

end
